theory Spec2Isabelle
  imports Complex_Main "HOL-Library.Word" "HOL-Library.Sublist"
begin

section \<open>The histogram probe: data model\<close>

text \<open>
  The program (\<^verbatim>\<open>main.go\<close>) registers a custom metric descriptor, writes one
  distribution-valued point, sleeps, reads audit logs through a subprocess and fetches the
  descriptor again. Everything it does to the outside world (clock, monitoring client,
  subprocess, standard output, process exit) is recorded as a list of events; everything
  the outside world answers is a field of the record \<open>world\<close>. Each backend call happens
  at most once in a run, so one answer per call describes any backend, stateful or not.
\<close>

subsection \<open>Errors and results\<close>

text \<open>
  A Go \<^verbatim>\<open>error\<close>: built by \<^verbatim>\<open>fmt.Errorf\<close> from a message, built by
  \<^verbatim>\<open>fmt.Errorf("...: %w", err)\<close> around another error, or handed over by a
  library (client, subprocess, text marshaller).
\<close>

datatype error = Errorf string | Wrap string error | External string

fun Error :: "error \<Rightarrow> string" where
  "Error (Errorf m) = m"
| "Error (Wrap p e) = p @ Error e"
| "Error (External m) = m"

text \<open>
  What a call of a Go function that returns \<^verbatim>\<open>(T, error)\<close> does: it returns a
  value with a nil error, returns an error, or panics.
\<close>

datatype 'a result = Ok 'a | Err error | Panic string

subsection \<open>Protocol messages\<close>

text \<open>
  The message types come from the client libraries; the fields are those the program sets.
  A pointer field is an \<open>option\<close> (\<open>None\<close> is nil), \<^verbatim>\<open>int64\<close> is a 64-bit word,
  a Go map is a partial function. The \<^verbatim>\<open>float64\<close> fields only ever hold the
  literals 10, 15, 30, 50 and 70, which are exact, and are never computed with.
\<close>

datatype LabelDescriptor_ValueType =
  LabelDescriptor_STRING | LabelDescriptor_BOOL | LabelDescriptor_INT64

datatype MetricDescriptor_MetricKind =
  MetricDescriptor_METRIC_KIND_UNSPECIFIED | MetricDescriptor_GAUGE
| MetricDescriptor_DELTA | MetricDescriptor_CUMULATIVE

datatype MetricDescriptor_ValueType =
  MetricDescriptor_VALUE_TYPE_UNSPECIFIED | MetricDescriptor_BOOL | MetricDescriptor_INT64
| MetricDescriptor_DOUBLE | MetricDescriptor_STRING | MetricDescriptor_DISTRIBUTION
| MetricDescriptor_MONEY

record LabelDescriptor =
  ld_Key :: string
  ld_ValueType :: LabelDescriptor_ValueType
  ld_Description :: string

record MetricDescriptor =
  md_Name :: string
  md_Type :: string
  md_Labels :: "LabelDescriptor list"
  md_MetricKind :: MetricDescriptor_MetricKind
  md_ValueType :: MetricDescriptor_ValueType
  md_Unit :: string
  md_Description :: string
  md_DisplayName :: string
  md_MonitoredResourceTypes :: "string list"
  md_Metadata :: "string option"

record Timestamp =
  Seconds :: "64 word"
  Nanos :: "32 word"

record TimeInterval =
  EndTime :: "Timestamp option"
  StartTime :: "Timestamp option"

datatype BucketOptions =
  ExplicitBuckets (Bounds: "real list")
| LinearBuckets "32 word" real real
| ExponentialBuckets "32 word" real real

record Distribution =
  Count :: "64 word"
  Mean :: real
  SumOfSquaredDeviation :: real
  Range :: "(real \<times> real) option"
  BucketOptions :: "BucketOptions option"
  BucketCounts :: "64 word list"

datatype TypedValue =
  BoolValue bool | Int64Value "64 word" | DoubleValue real | StringValue string
| DistributionValue "Distribution option"

record Point =
  Interval :: "TimeInterval option"
  Value :: "TypedValue option"

record Metric =
  m_Type :: string
  m_Labels :: "string \<rightharpoonup> string"

record MonitoredResource =
  mr_Type :: string
  mr_Labels :: "string \<rightharpoonup> string"

record TimeSeries =
  ts_Metric :: "Metric option"
  ts_Resource :: "MonitoredResource option"
  ts_MetricKind :: MetricDescriptor_MetricKind
  ts_ValueType :: MetricDescriptor_ValueType
  ts_Points :: "Point list"
  ts_Unit :: string

record CreateMetricDescriptorRequest =
  cmd_Name :: string
  cmd_MetricDescriptor :: "MetricDescriptor option"

record GetMetricDescriptorRequest =
  gmd_Name :: string

record CreateTimeSeriesRequest =
  cts_Name :: string
  cts_TimeSeries :: "TimeSeries list"

text \<open>What \<^verbatim>\<open>mustMarshalProtoText\<close> is given: a descriptor pointer or a series pointer.\<close>

datatype message =
  MetricDescriptorMsg "MetricDescriptor option"
| TimeSeriesMsg "TimeSeries option"

subsection \<open>Flags, the outside world, events\<close>

text \<open>The two flags after \<^verbatim>\<open>flag.Parse()\<close>.\<close>

record flags =
  projectID :: string
  monitoredResource :: string

text \<open>
  The answers of the outside world. A client call answers with a message and a nil error
  or with a nil message and an error, which is what the generated client returns.
\<close>

record world =
  Now :: Timestamp
  NewMetricClient :: "error option"
  CreateMetricDescriptor :: "CreateMetricDescriptorRequest \<Rightarrow> error + MetricDescriptor"
  CreateTimeSeries :: "CreateTimeSeriesRequest \<Rightarrow> error option"
  GetMetricDescriptor :: "GetMetricDescriptorRequest \<Rightarrow> error + MetricDescriptor"
  Run :: "string list \<Rightarrow> error option"
  Marshal :: "message \<Rightarrow> error + string"

datatype event =
  NewMetricClientCall
| CreateMetricDescriptorCall CreateMetricDescriptorRequest
| CreateTimeSeriesCall CreateTimeSeriesRequest
| GetMetricDescriptorCall GetMetricDescriptorRequest
| Printf string
| Sleep nat
| CommandRun "string list"
| SlogError string error
| OsExit nat

section \<open>The program\<close>

definition metricType :: string where
  "metricType = ''custom.googleapis.com/test/histogram''"

type_synonym Color = "8 word"

definition Black :: Color where "Black = 30"
definition Red :: Color where "Red = 31"
definition Green :: Color where "Green = 32"
definition Yellow :: Color where "Yellow = 33"
definition Blue :: Color where "Blue = 34"
definition Magenta :: Color where "Magenta = 35"
definition Cyan :: Color where "Cyan = 36"
definition White :: Color where "White = 37"

text \<open>The verb \<^verbatim>\<open>%d\<close> of \<^verbatim>\<open>fmt.Sprintf\<close> on an unsigned value.\<close>

fun decimal :: "nat \<Rightarrow> string" where
  "decimal n =
     (if n < 10 then [''0123456789'' ! n]
      else decimal (n div 10) @ [''0123456789'' ! (n mod 10)])"

declare decimal.simps [simp del]

definition Add :: "Color \<Rightarrow> string \<Rightarrow> string" where
  "Add c s = [CHR 0x1B] @ ''['' @ decimal (unat c) @ ''m'' @ s @ [CHR 0x1B] @ ''[0m''"

text \<open>
  \<^verbatim>\<open>mustMarshalProtoText\<close> returns the text (\<open>Inr\<close>) or panics with a message
  (\<open>Inl\<close>); whether the library's text marshaller fails is the world's answer.
\<close>

definition mustMarshalProtoText :: "world \<Rightarrow> message \<Rightarrow> string + string" where
  "mustMarshalProtoText w desc =
     (case Marshal w desc of
        Inl err \<Rightarrow> Inl (''marshal metric descriptor: '' @ Error err)
      | Inr descTxt \<Rightarrow> Inr descTxt)"

definition newHistogramPoint :: "world \<Rightarrow> Point" where
  "newHistogramPoint w =
     (let now = Now w in
      \<lparr> Interval = Some \<lparr> EndTime = Some now, StartTime = Some now \<rparr>,
        Value = Some (DistributionValue (Some
          \<lparr> Count = 2,
            Mean = 30,
            SumOfSquaredDeviation = 15,
            Range = None,
            BucketOptions = Some (ExplicitBuckets [10, 50, 70]),
            BucketCounts = [0, 1, 1, 0] \<rparr>)) \<rparr>)"

text \<open>
  The request literal of \<^verbatim>\<open>createHistogramDescriptor\<close> (lines 105 to 125), named so
  that theorems can speak about it.
\<close>

definition histogramDescriptorRequest :: "flags \<Rightarrow> CreateMetricDescriptorRequest" where
  "histogramDescriptorRequest cfg =
     \<lparr> cmd_Name = ''projects/'' @ projectID cfg,
       cmd_MetricDescriptor = Some
         \<lparr> md_Name = ''projects/'' @ projectID cfg @ ''/metricDescriptors/'' @ metricType,
           md_Type = metricType,
           md_Labels =
             [\<lparr> ld_Key = ''key_a'', ld_ValueType = LabelDescriptor_STRING,
                ld_Description = ''some key a'' \<rparr>],
           md_MetricKind = MetricDescriptor_GAUGE,
           md_ValueType = MetricDescriptor_DISTRIBUTION,
           md_Unit = ''ms'',
           md_Description = ''test histogram'',
           md_DisplayName = ''Test Histogram Display name'',
           md_MonitoredResourceTypes = [''generic_task'', ''k8s_container''],
           md_Metadata = None \<rparr> \<rparr>"

definition createHistogramDescriptor ::
  "flags \<Rightarrow> world \<Rightarrow> MetricDescriptor result \<times> event list" where
  "createHistogramDescriptor cfg w =
     (let req = histogramDescriptorRequest cfg in
      case CreateMetricDescriptor w req of
        Inl err \<Rightarrow>
          (Err (Wrap ''create metric descriptor: '' err), [CreateMetricDescriptorCall req])
      | Inr desc \<Rightarrow>
          (case mustMarshalProtoText w (MetricDescriptorMsg (Some desc)) of
             Inl p \<Rightarrow> (Panic p, [CreateMetricDescriptorCall req])
           | Inr txt \<Rightarrow>
               (Ok desc,
                [CreateMetricDescriptorCall req,
                 Printf ([CHR 0x0A] @ Add Blue ''[CREATED METRIC DESCRIPTOR]'' @ [CHR 0x0A]
                         @ txt @ [CHR 0x0A])])))"

text \<open>
  \<^verbatim>\<open>getMetricDescriptor\<close> prints what the client returned and then returns it with
  the client's error, whatever the error is. On an error the client's message is nil.
\<close>

definition getMetricDescriptor ::
  "world \<Rightarrow> MetricDescriptor \<Rightarrow> MetricDescriptor result \<times> event list" where
  "getMetricDescriptor w desc0 =
     (let req = \<lparr> gmd_Name = md_Name desc0 \<rparr>;
          answer = GetMetricDescriptor w req;
          desc = (case answer of Inl err \<Rightarrow> None | Inr d \<Rightarrow> Some d)
      in case mustMarshalProtoText w (MetricDescriptorMsg desc) of
           Inl p \<Rightarrow> (Panic p, [GetMetricDescriptorCall req])
         | Inr txt \<Rightarrow>
             ((case answer of Inl err \<Rightarrow> Err err | Inr d \<Rightarrow> Ok d),
              [GetMetricDescriptorCall req,
               Printf ([CHR 0x0A] @ Add Blue ''[GOT METRIC DESCRIPTOR]'' @ [CHR 0x0A]
                       @ txt @ [CHR 0x0A])]))"

text \<open>
  The first part of \<^verbatim>\<open>createHistogramTimeSeries\<close> (lines 151 to 186): the series
  literal and the switch on the flag, which either sets the resource or returns the error.
\<close>

definition histogramTimeSeries :: "flags \<Rightarrow> world \<Rightarrow> error + TimeSeries" where
  "histogramTimeSeries cfg w =
     (let series =
        \<lparr> ts_Metric = Some \<lparr> m_Type = metricType, m_Labels = [''key_a'' \<mapsto> ''value-a''] \<rparr>,
          ts_Resource = None,
          ts_MetricKind = MetricDescriptor_GAUGE,
          ts_ValueType = MetricDescriptor_DISTRIBUTION,
          ts_Points = [newHistogramPoint w],
          ts_Unit = ''ms'' \<rparr>
      in
      if monitoredResource cfg = ''generic_task'' then
        Inr (series\<lparr> ts_Resource := Some
          \<lparr> mr_Type = ''generic_task'',
            mr_Labels =
              [''project_id'' \<mapsto> projectID cfg,
               ''location'' \<mapsto> ''us-central1'',
               ''namespace'' \<mapsto> ''test'',
               ''job'' \<mapsto> ''test-job'',
               ''task_id'' \<mapsto> ''test-task''] \<rparr> \<rparr>)
      else if monitoredResource cfg = ''k8s_container'' then
        Inr (series\<lparr> ts_Resource := Some
          \<lparr> mr_Type = ''k8s_container'',
            mr_Labels =
              [''project_id'' \<mapsto> projectID cfg,
               ''location'' \<mapsto> ''us-central1'',
               ''cluster_name'' \<mapsto> ''test-cluster'',
               ''namespace_name'' \<mapsto> ''test-namespace'',
               ''pod_name'' \<mapsto> ''test-pod'',
               ''container_name'' \<mapsto> ''test-container''] \<rparr> \<rparr>)
      else if monitoredResource cfg = ''none'' then
        Inr (series\<lparr> ts_Resource := None \<rparr>)
      else
        Inl (Errorf (''unknown monitored resource: '' @ monitoredResource cfg)))"

definition createHistogramTimeSeries ::
  "flags \<Rightarrow> world \<Rightarrow> TimeSeries result \<times> event list" where
  "createHistogramTimeSeries cfg w =
     (case histogramTimeSeries cfg w of
        Inl err \<Rightarrow> (Err err, [])
      | Inr series \<Rightarrow>
          (case mustMarshalProtoText w (TimeSeriesMsg (Some series)) of
             Inl p \<Rightarrow> (Panic p, [])
           | Inr txt \<Rightarrow>
               (let printed =
                      Printf ([CHR 0x0A] @ Add Blue ''[CREATED TIME SERIES]'' @ [CHR 0x0A]
                              @ txt @ [CHR 0x0A]);
                    req = \<lparr> cts_Name = ''projects/'' @ projectID cfg,
                            cts_TimeSeries = [series] \<rparr>
                in case CreateTimeSeries w req of
                     Some err \<Rightarrow>
                       (Err (Wrap ''create time series: '' err),
                        [printed, CreateTimeSeriesCall req])
                   | None \<Rightarrow> (Ok series, [printed, CreateTimeSeriesCall req]))))"

text \<open>The command line of the audit-log subprocess (lines 85 to 88).\<close>

definition auditLogCommand :: "string list" where
  \<open>auditLogCommand =
     [''gcloud'', ''logging'', ''read'',
      ''resource.type="audited_resource" resource.labels.service="monitoring.googleapis.com" resource.labels.method="google.monitoring.v3.MetricService.CreateMetricDescriptor" protoPayload.request.metricDescriptor.type="''
        @ metricType @ [CHR 0x22],
      ''--limit=2'']\<close>

text \<open>
  \<^verbatim>\<open>runMain\<close>: each \<^verbatim>\<open>if err != nil\<close> is a case on the step's result. The
  sleep is the event \<open>Sleep 5\<close>, in seconds. The interrupt context and the deferred
  \<^verbatim>\<open>cancel\<close> leave no event.
\<close>

definition runMain :: "flags \<Rightarrow> world \<Rightarrow> unit result \<times> event list" where
  "runMain cfg w =
     (if projectID cfg = [] then (Err (Errorf ''--project-id is unset''), [])
      else case NewMetricClient w of
        Some err \<Rightarrow> (Err (Wrap ''create gcp monitoring client: '' err), [NewMetricClientCall])
      | None \<Rightarrow>
     (case createHistogramDescriptor cfg w of
        (Panic p, t1) \<Rightarrow> (Panic p, NewMetricClientCall # t1)
      | (Err err, t1) \<Rightarrow>
          (Err (Wrap ''create histogram descriptor: '' err), NewMetricClientCall # t1)
      | (Ok metricDesc, t1) \<Rightarrow>
     (case createHistogramTimeSeries cfg w of
        (Panic p, t2) \<Rightarrow> (Panic p, NewMetricClientCall # t1 @ t2)
      | (Err err, t2) \<Rightarrow>
          (Err (Wrap ''create histogram time series: '' err), NewMetricClientCall # t1 @ t2)
      | (Ok series, t2) \<Rightarrow>
     (let t3 =
        [Printf ([CHR 0x0A] @ Add Blue ''[AUDIT LOGS]''
                 @ '': showing CreateMetricDescriptor audit logs; sleeping'' @ [CHR 0x0A]),
         Sleep 5,
         CommandRun auditLogCommand]
      in case Run w auditLogCommand of
        Some err \<Rightarrow> (Err (Wrap ''read audit logs: '' err), NewMetricClientCall # t1 @ t2 @ t3)
      | None \<Rightarrow>
     (case getMetricDescriptor w metricDesc of
        (Panic p, t4) \<Rightarrow> (Panic p, NewMetricClientCall # t1 @ t2 @ t3 @ t4)
      | (Err err, t4) \<Rightarrow>
          (Err (Wrap ''get metric descriptor: '' err), NewMetricClientCall # t1 @ t2 @ t3 @ t4)
      | (Ok desc, t4) \<Rightarrow> (Ok (), NewMetricClientCall # t1 @ t2 @ t3 @ t4))))))"

text \<open>
  \<^verbatim>\<open>main\<close>: how the process ends. It returns from \<^verbatim>\<open>main\<close> (status 0), calls
  \<^verbatim>\<open>os.Exit(1)\<close> after logging, or dies of the panic, for which the Go runtime
  reports status 2.
\<close>

datatype ending = Returned | Exited nat | Crashed string

definition main :: "flags \<Rightarrow> world \<Rightarrow> ending \<times> event list" where
  "main cfg w =
     (case runMain cfg w of
        (Err err, t) \<Rightarrow> (Exited 1, t @ [SlogError ''run main'' err, OsExit 1])
      | (Panic p, t) \<Rightarrow> (Crashed p, t)
      | (Ok u, t) \<Rightarrow> (Returned, t))"

fun exitStatus :: "ending \<Rightarrow> nat" where
  "exitStatus Returned = 0"
| "exitStatus (Exited n) = n"
| "exitStatus (Crashed p) = 2"

section \<open>Reading a trace\<close>

text \<open>
  The steps of a run that show in the trace. Flag validation comes first and leaves no
  event; printing, logging and the exit call are not steps.
\<close>

datatype step =
  CreateClient | RegisterDescriptor | WriteSeries | SleepStep | ReadAuditLogs | ReadDescriptor

fun stepOf :: "event \<Rightarrow> step list" where
  "stepOf NewMetricClientCall = [CreateClient]"
| "stepOf (CreateMetricDescriptorCall req) = [RegisterDescriptor]"
| "stepOf (CreateTimeSeriesCall req) = [WriteSeries]"
| "stepOf (Sleep n) = [SleepStep]"
| "stepOf (CommandRun args) = [ReadAuditLogs]"
| "stepOf (GetMetricDescriptorCall req) = [ReadDescriptor]"
| "stepOf (Printf s) = []"
| "stepOf (SlogError m err) = []"
| "stepOf (OsExit n) = []"

definition steps :: "event list \<Rightarrow> step list" where
  "steps t = concat (map stepOf t)"

definition allSteps :: "step list" where
  "allSteps =
     [CreateClient, RegisterDescriptor, WriteSeries, SleepStep, ReadAuditLogs, ReadDescriptor]"

text \<open>The requests of each kind that a trace holds, in order.\<close>

fun registrationOf :: "event \<Rightarrow> CreateMetricDescriptorRequest list" where
  "registrationOf (CreateMetricDescriptorCall req) = [req]"
| "registrationOf e = []"

fun writeOf :: "event \<Rightarrow> CreateTimeSeriesRequest list" where
  "writeOf (CreateTimeSeriesCall req) = [req]"
| "writeOf e = []"

fun fetchOf :: "event \<Rightarrow> GetMetricDescriptorRequest list" where
  "fetchOf (GetMetricDescriptorCall req) = [req]"
| "fetchOf e = []"

definition registrationCalls :: "event list \<Rightarrow> CreateMetricDescriptorRequest list" where
  "registrationCalls t = concat (map registrationOf t)"

definition writeCalls :: "event list \<Rightarrow> CreateTimeSeriesRequest list" where
  "writeCalls t = concat (map writeOf t)"

definition fetchCalls :: "event list \<Rightarrow> GetMetricDescriptorRequest list" where
  "fetchCalls t = concat (map fetchOf t)"

text \<open>
  The events of lines 83 to 91 of \<^verbatim>\<open>runMain\<close>: the announcement, the sleep and the
  subprocess.
\<close>

definition auditEvents :: "event list" where
  "auditEvents =
     [Printf ([CHR 0x0A] @ Add Blue ''[AUDIT LOGS]''
              @ '': showing CreateMetricDescriptor audit logs; sleeping'' @ [CHR 0x0A]),
      Sleep 5,
      CommandRun auditLogCommand]"

text \<open>Network activity: creating the client and the three calls on it.\<close>

fun isNetwork :: "event \<Rightarrow> bool" where
  "isNetwork NewMetricClientCall = True"
| "isNetwork (CreateMetricDescriptorCall req) = True"
| "isNetwork (CreateTimeSeriesCall req) = True"
| "isNetwork (GetMetricDescriptorCall req) = True"
| "isNetwork (Printf s) = False"
| "isNetwork (Sleep n) = False"
| "isNetwork (CommandRun args) = False"
| "isNetwork (SlogError m err) = False"
| "isNetwork (OsExit n) = False"

section \<open>Sample worlds\<close>

text \<open>
  A backend that stores the descriptor of project \<open>demo\<close> and accepts every write, a
  subprocess that succeeds, and a marshaller that never fails (it renders a nil message
  as the empty text).
\<close>

definition demoDescriptor :: MetricDescriptor where
  "demoDescriptor =
     \<lparr> md_Name = ''projects/demo/metricDescriptors/custom.googleapis.com/test/histogram'',
       md_Type = ''custom.googleapis.com/test/histogram'',
       md_Labels =
         [\<lparr> ld_Key = ''key_a'', ld_ValueType = LabelDescriptor_STRING,
            ld_Description = ''some key a'' \<rparr>],
       md_MetricKind = MetricDescriptor_GAUGE,
       md_ValueType = MetricDescriptor_DISTRIBUTION,
       md_Unit = ''ms'',
       md_Description = ''test histogram'',
       md_DisplayName = ''Test Histogram Display name'',
       md_MonitoredResourceTypes = [],
       md_Metadata = None \<rparr>"

definition demoWorld :: world where
  "demoWorld =
     \<lparr> Now = \<lparr> Seconds = 1700000000, Nanos = 0 \<rparr>,
       NewMetricClient = None,
       CreateMetricDescriptor = (\<lambda>req. Inr demoDescriptor),
       CreateTimeSeries = (\<lambda>req. None),
       GetMetricDescriptor =
         (\<lambda>req. if gmd_Name req = md_Name demoDescriptor then Inr demoDescriptor
                else Inl (External ''not found'')),
       Run = (\<lambda>args. None),
       Marshal =
         (\<lambda>m. case m of
                MetricDescriptorMsg None \<Rightarrow> Inr []
              | MetricDescriptorMsg (Some d) \<Rightarrow> Inr (''type: '' @ md_Type d)
              | TimeSeriesMsg None \<Rightarrow> Inr []
              | TimeSeriesMsg (Some s) \<Rightarrow> Inr (''unit: '' @ ts_Unit s)) \<rparr>"

definition demoFlags :: flags where
  "demoFlags = \<lparr> projectID = ''demo'', monitoredResource = ''none'' \<rparr>"

text \<open>Worlds in which exactly one step fails.\<close>

definition noClientWorld :: world where
  "noClientWorld = demoWorld \<lparr> NewMetricClient := Some (External ''no credentials'') \<rparr>"

definition registerFailsWorld :: world where
  "registerFailsWorld =
     demoWorld \<lparr> CreateMetricDescriptor := (\<lambda>req. Inl (External ''permission denied'')) \<rparr>"

definition writeFailsWorld :: world where
  "writeFailsWorld =
     demoWorld \<lparr> CreateTimeSeries := (\<lambda>req. Some (External ''invalid argument'')) \<rparr>"

definition auditFailsWorld :: world where
  "auditFailsWorld = demoWorld \<lparr> Run := (\<lambda>args. Some (External ''exit status 1'')) \<rparr>"

definition fetchFailsWorld :: world where
  "fetchFailsWorld =
     demoWorld \<lparr> GetMetricDescriptor := (\<lambda>req. Inl (External ''not found'')) \<rparr>"

text \<open>
  A backend whose descriptor changes between registration and fetch: the fetch reports
  another value type.
\<close>

definition driftedDescriptor :: MetricDescriptor where
  "driftedDescriptor = demoDescriptor \<lparr> md_ValueType := MetricDescriptor_DOUBLE \<rparr>"

definition driftingWorld :: world where
  "driftingWorld = demoWorld \<lparr> GetMetricDescriptor := (\<lambda>req. Inr driftedDescriptor) \<rparr>"

section \<open>What each function can do\<close>

lemma histogramTimeSeries_unknown:
  assumes "monitoredResource cfg \<notin> {''generic_task'', ''none'', ''k8s_container''}"
  shows "histogramTimeSeries cfg w =
           Inl (Errorf (''unknown monitored resource: '' @ monitoredResource cfg))"
  using assms by (simp add: histogramTimeSeries_def)

lemma createHistogramDescriptor_cases:
  obtains
    (failed) e where
      "CreateMetricDescriptor w (histogramDescriptorRequest cfg) = Inl e"
      "createHistogramDescriptor cfg w =
         (Err (Wrap ''create metric descriptor: '' e),
          [CreateMetricDescriptorCall (histogramDescriptorRequest cfg)])"
  | (panicked) d e where
      "CreateMetricDescriptor w (histogramDescriptorRequest cfg) = Inr d"
      "Marshal w (MetricDescriptorMsg (Some d)) = Inl e"
      "createHistogramDescriptor cfg w =
         (Panic (''marshal metric descriptor: '' @ Error e),
          [CreateMetricDescriptorCall (histogramDescriptorRequest cfg)])"
  | (created) d out where
      "CreateMetricDescriptor w (histogramDescriptorRequest cfg) = Inr d"
      "Marshal w (MetricDescriptorMsg (Some d)) = Inr out"
      "createHistogramDescriptor cfg w =
         (Ok d,
          [CreateMetricDescriptorCall (histogramDescriptorRequest cfg),
           Printf ([CHR 0x0A] @ Add Blue ''[CREATED METRIC DESCRIPTOR]'' @ [CHR 0x0A]
                   @ out @ [CHR 0x0A])])"
proof (cases "CreateMetricDescriptor w (histogramDescriptorRequest cfg)")
  case (Inl e)
  then show ?thesis
    using failed by (simp add: createHistogramDescriptor_def)
next
  case (Inr d)
  show ?thesis
  proof (cases "Marshal w (MetricDescriptorMsg (Some d))")
    case (Inl e)
    with Inr show ?thesis
      using panicked by (simp add: createHistogramDescriptor_def mustMarshalProtoText_def)
  next
    case (Inr out)
    with \<open>CreateMetricDescriptor w (histogramDescriptorRequest cfg) = Inr d\<close> show ?thesis
      using created by (simp add: createHistogramDescriptor_def mustMarshalProtoText_def)
  qed
qed

lemma createHistogramTimeSeries_cases:
  obtains
    (unknown) e where
      "histogramTimeSeries cfg w = Inl e"
      "createHistogramTimeSeries cfg w = (Err e, [])"
  | (panicked) s e where
      "histogramTimeSeries cfg w = Inr s"
      "Marshal w (TimeSeriesMsg (Some s)) = Inl e"
      "createHistogramTimeSeries cfg w = (Panic (''marshal metric descriptor: '' @ Error e), [])"
  | (failed) s out e where
      "histogramTimeSeries cfg w = Inr s"
      "Marshal w (TimeSeriesMsg (Some s)) = Inr out"
      "CreateTimeSeries w \<lparr> cts_Name = ''projects/'' @ projectID cfg, cts_TimeSeries = [s] \<rparr>
         = Some e"
      "createHistogramTimeSeries cfg w =
         (Err (Wrap ''create time series: '' e),
          [Printf ([CHR 0x0A] @ Add Blue ''[CREATED TIME SERIES]'' @ [CHR 0x0A]
                   @ out @ [CHR 0x0A]),
           CreateTimeSeriesCall
             \<lparr> cts_Name = ''projects/'' @ projectID cfg, cts_TimeSeries = [s] \<rparr>])"
  | (written) s out where
      "histogramTimeSeries cfg w = Inr s"
      "Marshal w (TimeSeriesMsg (Some s)) = Inr out"
      "CreateTimeSeries w \<lparr> cts_Name = ''projects/'' @ projectID cfg, cts_TimeSeries = [s] \<rparr>
         = None"
      "createHistogramTimeSeries cfg w =
         (Ok s,
          [Printf ([CHR 0x0A] @ Add Blue ''[CREATED TIME SERIES]'' @ [CHR 0x0A]
                   @ out @ [CHR 0x0A]),
           CreateTimeSeriesCall
             \<lparr> cts_Name = ''projects/'' @ projectID cfg, cts_TimeSeries = [s] \<rparr>])"
proof (cases "histogramTimeSeries cfg w")
  case (Inl e)
  then show ?thesis
    using unknown by (simp add: createHistogramTimeSeries_def)
next
  case s: (Inr s)
  show ?thesis
  proof (cases "Marshal w (TimeSeriesMsg (Some s))")
    case (Inl e)
    with s show ?thesis
      using panicked by (simp add: createHistogramTimeSeries_def mustMarshalProtoText_def)
  next
    case out: (Inr out)
    show ?thesis
    proof (cases "CreateTimeSeries w
                    \<lparr> cts_Name = ''projects/'' @ projectID cfg, cts_TimeSeries = [s] \<rparr>")
      case None
      with s out show ?thesis
        using written by (simp add: createHistogramTimeSeries_def mustMarshalProtoText_def)
    next
      case (Some e)
      with s out show ?thesis
        using failed by (simp add: createHistogramTimeSeries_def mustMarshalProtoText_def)
    qed
  qed
qed

lemma getMetricDescriptor_cases:
  obtains
    (panicked) e where
      "Marshal w (MetricDescriptorMsg
         (case GetMetricDescriptor w \<lparr> gmd_Name = md_Name d \<rparr> of
            Inl err \<Rightarrow> None | Inr d' \<Rightarrow> Some d')) = Inl e"
      "getMetricDescriptor w d =
         (Panic (''marshal metric descriptor: '' @ Error e),
          [GetMetricDescriptorCall \<lparr> gmd_Name = md_Name d \<rparr>])"
  | (failed) e out where
      "GetMetricDescriptor w \<lparr> gmd_Name = md_Name d \<rparr> = Inl e"
      "Marshal w (MetricDescriptorMsg None) = Inr out"
      "getMetricDescriptor w d =
         (Err e,
          [GetMetricDescriptorCall \<lparr> gmd_Name = md_Name d \<rparr>,
           Printf ([CHR 0x0A] @ Add Blue ''[GOT METRIC DESCRIPTOR]'' @ [CHR 0x0A]
                   @ out @ [CHR 0x0A])])"
  | (got) d' out where
      "GetMetricDescriptor w \<lparr> gmd_Name = md_Name d \<rparr> = Inr d'"
      "Marshal w (MetricDescriptorMsg (Some d')) = Inr out"
      "getMetricDescriptor w d =
         (Ok d',
          [GetMetricDescriptorCall \<lparr> gmd_Name = md_Name d \<rparr>,
           Printf ([CHR 0x0A] @ Add Blue ''[GOT METRIC DESCRIPTOR]'' @ [CHR 0x0A]
                   @ out @ [CHR 0x0A])])"
proof (cases "GetMetricDescriptor w \<lparr> gmd_Name = md_Name d \<rparr>")
  case a: (Inl e)
  show ?thesis
  proof (cases "Marshal w (MetricDescriptorMsg None)")
    case (Inl e')
    with a show ?thesis
      using panicked [of e']
      by (simp add: getMetricDescriptor_def mustMarshalProtoText_def)
  next
    case (Inr out)
    with a show ?thesis
      using failed by (simp add: getMetricDescriptor_def mustMarshalProtoText_def)
  qed
next
  case a: (Inr d')
  show ?thesis
  proof (cases "Marshal w (MetricDescriptorMsg (Some d'))")
    case (Inl e')
    with a show ?thesis
      using panicked [of e']
      by (simp add: getMetricDescriptor_def mustMarshalProtoText_def)
  next
    case (Inr out)
    with a show ?thesis
      using got by (simp add: getMetricDescriptor_def mustMarshalProtoText_def)
  qed
qed

text \<open>The ten ways a run can go, by the results of its steps.\<close>

lemma runMain_cases:
  obtains
    (unset)
      "projectID cfg = []"
      "runMain cfg w = (Err (Errorf ''--project-id is unset''), [])"
  | (no_client) e where
      "projectID cfg \<noteq> []" "NewMetricClient w = Some e"
      "runMain cfg w =
         (Err (Wrap ''create gcp monitoring client: '' e), [NewMetricClientCall])"
  | (register_failed) e where
      "projectID cfg \<noteq> []" "NewMetricClient w = None"
      "fst (createHistogramDescriptor cfg w) = Err e"
      "runMain cfg w =
         (Err (Wrap ''create histogram descriptor: '' e),
          NewMetricClientCall # snd (createHistogramDescriptor cfg w))"
  | (register_panicked) p where
      "projectID cfg \<noteq> []" "NewMetricClient w = None"
      "fst (createHistogramDescriptor cfg w) = Panic p"
      "runMain cfg w = (Panic p, NewMetricClientCall # snd (createHistogramDescriptor cfg w))"
  | (write_failed) d e where
      "projectID cfg \<noteq> []" "NewMetricClient w = None"
      "fst (createHistogramDescriptor cfg w) = Ok d"
      "fst (createHistogramTimeSeries cfg w) = Err e"
      "runMain cfg w =
         (Err (Wrap ''create histogram time series: '' e),
          NewMetricClientCall # snd (createHistogramDescriptor cfg w)
            @ snd (createHistogramTimeSeries cfg w))"
  | (write_panicked) d p where
      "projectID cfg \<noteq> []" "NewMetricClient w = None"
      "fst (createHistogramDescriptor cfg w) = Ok d"
      "fst (createHistogramTimeSeries cfg w) = Panic p"
      "runMain cfg w =
         (Panic p,
          NewMetricClientCall # snd (createHistogramDescriptor cfg w)
            @ snd (createHistogramTimeSeries cfg w))"
  | (audit_failed) d s e where
      "projectID cfg \<noteq> []" "NewMetricClient w = None"
      "fst (createHistogramDescriptor cfg w) = Ok d"
      "fst (createHistogramTimeSeries cfg w) = Ok s"
      "Run w auditLogCommand = Some e"
      "runMain cfg w =
         (Err (Wrap ''read audit logs: '' e),
          NewMetricClientCall # snd (createHistogramDescriptor cfg w)
            @ snd (createHistogramTimeSeries cfg w) @ auditEvents)"
  | (read_failed) d s e where
      "projectID cfg \<noteq> []" "NewMetricClient w = None"
      "fst (createHistogramDescriptor cfg w) = Ok d"
      "fst (createHistogramTimeSeries cfg w) = Ok s"
      "Run w auditLogCommand = None"
      "fst (getMetricDescriptor w d) = Err e"
      "runMain cfg w =
         (Err (Wrap ''get metric descriptor: '' e),
          NewMetricClientCall # snd (createHistogramDescriptor cfg w)
            @ snd (createHistogramTimeSeries cfg w) @ auditEvents
            @ snd (getMetricDescriptor w d))"
  | (read_panicked) d s p where
      "projectID cfg \<noteq> []" "NewMetricClient w = None"
      "fst (createHistogramDescriptor cfg w) = Ok d"
      "fst (createHistogramTimeSeries cfg w) = Ok s"
      "Run w auditLogCommand = None"
      "fst (getMetricDescriptor w d) = Panic p"
      "runMain cfg w =
         (Panic p,
          NewMetricClientCall # snd (createHistogramDescriptor cfg w)
            @ snd (createHistogramTimeSeries cfg w) @ auditEvents
            @ snd (getMetricDescriptor w d))"
  | (finished) d s d' where
      "projectID cfg \<noteq> []" "NewMetricClient w = None"
      "fst (createHistogramDescriptor cfg w) = Ok d"
      "fst (createHistogramTimeSeries cfg w) = Ok s"
      "Run w auditLogCommand = None"
      "fst (getMetricDescriptor w d) = Ok d'"
      "runMain cfg w =
         (Ok (),
          NewMetricClientCall # snd (createHistogramDescriptor cfg w)
            @ snd (createHistogramTimeSeries cfg w) @ auditEvents
            @ snd (getMetricDescriptor w d))"
proof (cases "projectID cfg = []")
  case True
  then show ?thesis using unset by (simp add: runMain_def)
next
  case pid: False
  show ?thesis
  proof (cases "NewMetricClient w")
    case (Some e)
    with pid show ?thesis using no_client by (simp add: runMain_def)
  next
    case cl: None
    obtain r1 t1 where r1: "createHistogramDescriptor cfg w = (r1, t1)"
      by (cases "createHistogramDescriptor cfg w")
    show ?thesis
    proof (cases r1)
      case (Err e)
      with pid cl r1 show ?thesis using register_failed by (simp add: runMain_def)
    next
      case (Panic p)
      with pid cl r1 show ?thesis using register_panicked by (simp add: runMain_def)
    next
      case (Ok d)
      note r1 = r1 [unfolded Ok]
      obtain r2 t2 where r2: "createHistogramTimeSeries cfg w = (r2, t2)"
        by (cases "createHistogramTimeSeries cfg w")
      show ?thesis
      proof (cases r2)
        case (Err e)
        with pid cl r1 r2 show ?thesis using write_failed by (simp add: runMain_def)
      next
        case (Panic p)
        with pid cl r1 r2 show ?thesis using write_panicked by (simp add: runMain_def)
      next
        case (Ok s)
        note r2 = r2 [unfolded Ok]
        show ?thesis
        proof (cases "Run w auditLogCommand")
          case (Some e)
          with pid cl r1 r2 show ?thesis
            using audit_failed by (simp add: runMain_def auditEvents_def)
        next
          case ru: None
          obtain r4 t4 where r4: "getMetricDescriptor w d = (r4, t4)"
            by (cases "getMetricDescriptor w d")
          show ?thesis
          proof (cases r4)
            case (Err e)
            with pid cl r1 r2 ru r4 show ?thesis
              using read_failed by (simp add: runMain_def auditEvents_def)
          next
            case (Panic p)
            with pid cl r1 r2 ru r4 show ?thesis
              using read_panicked by (simp add: runMain_def auditEvents_def)
          next
            case (Ok d')
            with pid cl r1 r2 ru r4 show ?thesis
              using finished by (simp add: runMain_def auditEvents_def)
          qed
        qed
      qed
    qed
  qed
qed

section \<open>Traces of the functions\<close>

lemmas trace_defs = steps_def registrationCalls_def writeCalls_def fetchCalls_def

lemma registrationCalls_append [simp]:
  "registrationCalls (a @ b) = registrationCalls a @ registrationCalls b"
  by (simp add: registrationCalls_def)

lemma writeCalls_append [simp]: "writeCalls (a @ b) = writeCalls a @ writeCalls b"
  by (simp add: writeCalls_def)

lemma fetchCalls_append [simp]: "fetchCalls (a @ b) = fetchCalls a @ fetchCalls b"
  by (simp add: fetchCalls_def)

lemma steps_append [simp]: "steps (a @ b) = steps a @ steps b"
  by (simp add: steps_def)

lemma trace_Cons [simp]:
  "steps (e # t) = stepOf e @ steps t"
  "registrationCalls (e # t) = registrationOf e @ registrationCalls t"
  "writeCalls (e # t) = writeOf e @ writeCalls t"
  "fetchCalls (e # t) = fetchOf e @ fetchCalls t"
  by (simp_all add: trace_defs)

lemma trace_Nil [simp]:
  "steps [] = []" "registrationCalls [] = []" "writeCalls [] = []" "fetchCalls [] = []"
  by (simp_all add: trace_defs)

lemma trace_auditEvents [simp]:
  "steps auditEvents = [SleepStep, ReadAuditLogs]"
  "registrationCalls auditEvents = []"
  "writeCalls auditEvents = []"
  "fetchCalls auditEvents = []"
  "filter isNetwork auditEvents = []"
  by (simp_all add: auditEvents_def)

lemma trace_createHistogramDescriptor [simp]:
  "steps (snd (createHistogramDescriptor cfg w)) = [RegisterDescriptor]"
  "registrationCalls (snd (createHistogramDescriptor cfg w)) = [histogramDescriptorRequest cfg]"
  "writeCalls (snd (createHistogramDescriptor cfg w)) = []"
  "fetchCalls (snd (createHistogramDescriptor cfg w)) = []"
  by (rule createHistogramDescriptor_cases [of w cfg]; simp)+

lemma trace_getMetricDescriptor [simp]:
  "steps (snd (getMetricDescriptor w d)) = [ReadDescriptor]"
  "registrationCalls (snd (getMetricDescriptor w d)) = []"
  "writeCalls (snd (getMetricDescriptor w d)) = []"
  "fetchCalls (snd (getMetricDescriptor w d)) = [\<lparr> gmd_Name = md_Name d \<rparr>]"
  by (rule getMetricDescriptor_cases [of w d]; simp)+

lemma trace_createHistogramTimeSeries [simp]:
  "registrationCalls (snd (createHistogramTimeSeries cfg w)) = []"
  "fetchCalls (snd (createHistogramTimeSeries cfg w)) = []"
  by (rule createHistogramTimeSeries_cases [of cfg w]; simp)+

lemma writeCalls_createHistogramTimeSeries:
  "writeCalls (snd (createHistogramTimeSeries cfg w)) = [] \<or>
   (\<exists>s. histogramTimeSeries cfg w = Inr s \<and>
        writeCalls (snd (createHistogramTimeSeries cfg w)) =
          [\<lparr> cts_Name = ''projects/'' @ projectID cfg, cts_TimeSeries = [s] \<rparr>])"
  by (rule createHistogramTimeSeries_cases [of cfg w]; simp)

lemma createHistogramTimeSeries_Ok:
  assumes "fst (createHistogramTimeSeries cfg w) = Ok s"
  shows "histogramTimeSeries cfg w = Inr s"
    and "steps (snd (createHistogramTimeSeries cfg w)) = [WriteSeries]"
    and "writeCalls (snd (createHistogramTimeSeries cfg w)) =
           [\<lparr> cts_Name = ''projects/'' @ projectID cfg, cts_TimeSeries = [s] \<rparr>]"
  by (rule createHistogramTimeSeries_cases [of cfg w]; insert assms; simp)+

lemma steps_createHistogramTimeSeries_prefix:
  "steps (snd (createHistogramTimeSeries cfg w)) = [] \<or>
   steps (snd (createHistogramTimeSeries cfg w)) = [WriteSeries]"
  by (rule createHistogramTimeSeries_cases [of cfg w]; simp)

lemma trace_main [simp]:
  "steps (snd (main cfg w)) = steps (snd (runMain cfg w))"
  "registrationCalls (snd (main cfg w)) = registrationCalls (snd (runMain cfg w))"
  "writeCalls (snd (main cfg w)) = writeCalls (snd (runMain cfg w))"
  "fetchCalls (snd (main cfg w)) = fetchCalls (snd (runMain cfg w))"
  by (cases "runMain cfg w"; simp add: main_def split: result.splits)+

lemma steps_runMain_prefix: "prefix (steps (snd (runMain cfg w))) allSteps"
  by (rule runMain_cases [of cfg w]; insert steps_createHistogramTimeSeries_prefix [of cfg w])
     (auto simp: allSteps_def createHistogramTimeSeries_Ok)

lemma registrationCalls_runMain:
  "registrationCalls (snd (runMain cfg w)) =
     (if projectID cfg \<noteq> [] \<and> NewMetricClient w = None
      then [histogramDescriptorRequest cfg] else [])"
  by (rule runMain_cases [of cfg w]) simp_all

lemma writeCalls_runMain:
  "writeCalls (snd (runMain cfg w)) = [] \<or>
   (\<exists>s. histogramTimeSeries cfg w = Inr s \<and>
        writeCalls (snd (runMain cfg w)) =
          [\<lparr> cts_Name = ''projects/'' @ projectID cfg, cts_TimeSeries = [s] \<rparr>])"
  by (rule runMain_cases [of cfg w]; insert writeCalls_createHistogramTimeSeries [of cfg w])
     auto

lemma network_createHistogramDescriptor [simp]:
  "filter isNetwork (snd (createHistogramDescriptor cfg w)) =
     [CreateMetricDescriptorCall (histogramDescriptorRequest cfg)]"
  by (rule createHistogramDescriptor_cases [of w cfg]; simp)

lemma network_createHistogramTimeSeries [simp]:
  "filter isNetwork (snd (createHistogramTimeSeries cfg w)) =
     map CreateTimeSeriesCall (writeCalls (snd (createHistogramTimeSeries cfg w)))"
  by (rule createHistogramTimeSeries_cases [of cfg w]; simp)

lemma network_getMetricDescriptor [simp]:
  "filter isNetwork (snd (getMetricDescriptor w d)) =
     [GetMetricDescriptorCall \<lparr> gmd_Name = md_Name d \<rparr>]"
  by (rule getMetricDescriptor_cases [of w d]; simp)

lemma network_main [simp]:
  "filter isNetwork (snd (main cfg w)) = filter isNetwork (snd (runMain cfg w))"
  by (cases "runMain cfg w"; simp add: main_def split: result.splits)

lemma runMain_unset:
  assumes "projectID cfg = []"
  shows "runMain cfg w = (Err (Errorf ''--project-id is unset''), [])"
  using assms by (simp add: runMain_def)

lemma runMain_Ok:
  "fst (runMain cfg w) = Ok () \<longleftrightarrow>
     projectID cfg \<noteq> [] \<and> NewMetricClient w = None \<and>
     (\<exists>d s d'. fst (createHistogramDescriptor cfg w) = Ok d \<and>
               fst (createHistogramTimeSeries cfg w) = Ok s \<and>
               Run w auditLogCommand = None \<and>
               fst (getMetricDescriptor w d) = Ok d')"
  by (rule runMain_cases [of cfg w]; simp)

lemma main_Returned: "fst (main cfg w) = Returned \<longleftrightarrow> fst (runMain cfg w) = Ok ()"
  by (cases "runMain cfg w"; simp add: main_def split: result.splits)

lemma main_Err:
  assumes "fst (runMain cfg w) = Err e"
  shows "main cfg w = (Exited 1, snd (runMain cfg w) @ [SlogError ''run main'' e, OsExit 1])"
  using assms by (cases "runMain cfg w"; simp add: main_def)

lemma main_Panic:
  assumes "fst (runMain cfg w) = Panic p"
  shows "main cfg w = (Crashed p, snd (runMain cfg w))"
  using assms by (cases "runMain cfg w"; simp add: main_def)

lemma main_exitStatus:
  "exitStatus (fst (main cfg w)) =
     (case fst (runMain cfg w) of Ok u \<Rightarrow> 0 | Err e \<Rightarrow> 1 | Panic p \<Rightarrow> 2)"
  by (cases "runMain cfg w"; simp add: main_def split: result.splits)

section \<open>The claims\<close>

lemmas program_defs =
  main_def runMain_def createHistogramDescriptor_def createHistogramTimeSeries_def
  histogramTimeSeries_def getMetricDescriptor_def mustMarshalProtoText_def
  histogramDescriptorRequest_def newHistogramPoint_def metricType_def Let_def

lemmas world_defs =
  demoFlags_def demoWorld_def demoDescriptor_def noClientWorld_def registerFailsWorld_def
  writeFailsWorld_def auditFailsWorld_def fetchFailsWorld_def driftedDescriptor_def
  driftingWorld_def

lemma histogramTimeSeries_Now:
  assumes "Now w' = Now w"
  shows "histogramTimeSeries cfg w' = histogramTimeSeries cfg w"
  using assms by (simp add: histogramTimeSeries_def newHistogramPoint_def)

lemma histogramTimeSeries_supported:
  assumes "monitoredResource cfg \<in> {''generic_task'', ''none'', ''k8s_container''}"
  shows "\<exists>r. histogramTimeSeries cfg w =
           Inr \<lparr> ts_Metric = Some \<lparr> m_Type = metricType, m_Labels = [''key_a'' \<mapsto> ''value-a''] \<rparr>,
                 ts_Resource = r,
                 ts_MetricKind = MetricDescriptor_GAUGE,
                 ts_ValueType = MetricDescriptor_DISTRIBUTION,
                 ts_Points = [newHistogramPoint w],
                 ts_Unit = ''ms'' \<rparr>"
  using assms by (auto simp: histogramTimeSeries_def)

text \<open>
  Claim C1. For each supported token (\<open>generic_task\<close>, \<open>none\<close>, \<open>k8s_container\<close>) the
  writer builds a series with exactly one point. The point's interval starts when it ends,
  its explicit bounds are 10, 50, 70 and it has four bucket counts, one more than bounds.
  Whatever the writer submits is a batch holding this series alone.
\<close>

theorem point_counts_and_interval:
  assumes "monitoredResource cfg \<in> {''generic_task'', ''none'', ''k8s_container''}"
  shows "\<exists>series p iv d bs.
     histogramTimeSeries cfg w = Inr series \<and> ts_Points series = [p] \<and>
     Interval p = Some iv \<and> StartTime iv = EndTime iv \<and>
     Value p = Some (DistributionValue (Some d)) \<and>
     BucketOptions d = Some (ExplicitBuckets bs) \<and> bs = [10, 50, 70] \<and>
     length (BucketCounts d) = length bs + 1 \<and> length (BucketCounts d) = 4 \<and>
     (writeCalls (snd (createHistogramTimeSeries cfg w)) = [] \<or>
      writeCalls (snd (createHistogramTimeSeries cfg w)) =
        [\<lparr> cts_Name = ''projects/'' @ projectID cfg, cts_TimeSeries = [series] \<rparr>])"
proof -
  from histogramTimeSeries_supported [OF assms, of w]
  obtain series where s: "histogramTimeSeries cfg w = Inr series"
    and p: "ts_Points series = [newHistogramPoint w]"
    by auto
  from s writeCalls_createHistogramTimeSeries [of cfg w]
  have "writeCalls (snd (createHistogramTimeSeries cfg w)) = [] \<or>
      writeCalls (snd (createHistogramTimeSeries cfg w)) =
        [\<lparr> cts_Name = ''projects/'' @ projectID cfg, cts_TimeSeries = [series] \<rparr>]"
    by auto
  with s p show ?thesis
    by (simp add: newHistogramPoint_def Let_def)
qed

theorem point_counts_and_interval_witness:
  "monitoredResource \<lparr> projectID = ''demo'', monitoredResource = ''k8s_container'' \<rparr>
     \<in> {''generic_task'', ''none'', ''k8s_container''} \<and>
   (\<exists>series p iv d.
     histogramTimeSeries \<lparr> projectID = ''demo'', monitoredResource = ''k8s_container'' \<rparr>
       demoWorld = Inr series \<and>
     ts_Points series = [p] \<and> Interval p = Some iv \<and> StartTime iv = EndTime iv \<and>
     Value p = Some (DistributionValue (Some d)) \<and>
     BucketOptions d = Some (ExplicitBuckets [10, 50, 70]) \<and>
     length (BucketCounts d) = 4 \<and>
     writeCalls (snd (createHistogramTimeSeries
         \<lparr> projectID = ''demo'', monitoredResource = ''k8s_container'' \<rparr> demoWorld)) =
       [\<lparr> cts_Name = ''projects/demo'', cts_TimeSeries = [series] \<rparr>])"
proof -
  let ?cfg = "\<lparr> projectID = ''demo'', monitoredResource = ''k8s_container'' \<rparr>"
  have h: "monitoredResource ?cfg \<in> {''generic_task'', ''none'', ''k8s_container''}"
    by simp
  have ran: "writeCalls (snd (createHistogramTimeSeries ?cfg demoWorld)) \<noteq> []"
    by (simp add: program_defs world_defs)
  from point_counts_and_interval [OF h, of demoWorld] ran h show ?thesis
    by auto
qed

text \<open>
  Claim C2. For a token outside the three supported ones (\<open>invalid\<close>, say) the write step
  returns the error \<open>unknown monitored resource: token\<close>, whose message ends with the
  token, and its trace is empty: nothing is printed and \<^verbatim>\<open>CreateTimeSeries\<close> is not
  called.
\<close>

theorem unknown_resource_rejected_before_write:
  assumes "monitoredResource cfg \<notin> {''generic_task'', ''none'', ''k8s_container''}"
  shows "createHistogramTimeSeries cfg w =
           (Err (Errorf (''unknown monitored resource: '' @ monitoredResource cfg)), []) \<and>
         Error (Errorf (''unknown monitored resource: '' @ monitoredResource cfg)) =
           ''unknown monitored resource: '' @ monitoredResource cfg \<and>
         writeCalls (snd (createHistogramTimeSeries cfg w)) = [] \<and>
         filter isNetwork (snd (createHistogramTimeSeries cfg w)) = []"
  using histogramTimeSeries_unknown [OF assms, of w]
  by (simp add: createHistogramTimeSeries_def)

theorem unknown_resource_rejected_before_write_witness:
  "monitoredResource \<lparr> projectID = ''demo'', monitoredResource = ''invalid'' \<rparr>
     \<notin> {''generic_task'', ''none'', ''k8s_container''} \<and>
   createHistogramTimeSeries \<lparr> projectID = ''demo'', monitoredResource = ''invalid'' \<rparr> demoWorld
     = (Err (Errorf ''unknown monitored resource: invalid''), [])"
  using unknown_resource_rejected_before_write
          [of "\<lparr> projectID = ''demo'', monitoredResource = ''invalid'' \<rparr>" demoWorld]
  by simp

text \<open>
  Claim C3 says that every configuration error, an unrecognized resource token included, is
  found before any network activity. The run below, for project \<open>demo\<close> and the token
  \<open>invalid\<close>, ends with the unknown-resource error after the client has been created and
  the registration call has been issued.
\<close>

theorem unknown_resource_found_after_registration:
  "fst (runMain \<lparr> projectID = ''demo'', monitoredResource = ''invalid'' \<rparr> demoWorld) =
     Err (Wrap ''create histogram time series: ''
            (Errorf ''unknown monitored resource: invalid'')) \<and>
   filter isNetwork
     (snd (runMain \<lparr> projectID = ''demo'', monitoredResource = ''invalid'' \<rparr> demoWorld)) =
     [NewMetricClientCall,
      CreateMetricDescriptorCall
        (histogramDescriptorRequest \<lparr> projectID = ''demo'', monitoredResource = ''invalid'' \<rparr>)]"
  by (simp add: runMain_def createHistogramDescriptor_def createHistogramTimeSeries_def
      histogramTimeSeries_def mustMarshalProtoText_def demoWorld_def)

text \<open>
  Claim C3 as the program has it. An empty project identifier is found before any network
  activity. An unrecognized resource token is found by the write step: the run reports it
  exactly when the identifier is set, the client was created and registration succeeded;
  by then the client creation and the registration call are the network activity of the
  run, and the write call is never issued.
\<close>

theorem configuration_errors_detection:
  "(projectID cfg = [] \<longrightarrow>
      runMain cfg w = (Err (Errorf ''--project-id is unset''), []) \<and>
      filter isNetwork (snd (main cfg w)) = [])
   \<and>
   (monitoredResource cfg \<notin> {''generic_task'', ''none'', ''k8s_container''} \<longrightarrow>
      writeCalls (snd (main cfg w)) = [] \<and>
      (fst (runMain cfg w) =
         Err (Wrap ''create histogram time series: ''
                (Errorf (''unknown monitored resource: '' @ monitoredResource cfg)))
       \<longleftrightarrow> projectID cfg \<noteq> [] \<and> NewMetricClient w = None \<and>
           (\<exists>d. fst (createHistogramDescriptor cfg w) = Ok d)) \<and>
      (fst (runMain cfg w) =
         Err (Wrap ''create histogram time series: ''
                (Errorf (''unknown monitored resource: '' @ monitoredResource cfg)))
       \<longrightarrow> filter isNetwork (snd (main cfg w)) =
             [NewMetricClientCall,
              CreateMetricDescriptorCall (histogramDescriptorRequest cfg)]))"
proof (intro conjI impI)
  assume "projectID cfg = []"
  then show "runMain cfg w = (Err (Errorf ''--project-id is unset''), [])"
    and "filter isNetwork (snd (main cfg w)) = []"
    by (simp_all add: runMain_unset)
next
  assume u: "monitoredResource cfg \<notin> {''generic_task'', ''none'', ''k8s_container''}"
  have ts: "createHistogramTimeSeries cfg w =
              (Err (Errorf (''unknown monitored resource: '' @ monitoredResource cfg)), [])"
    using histogramTimeSeries_unknown [OF u, of w] by (simp add: createHistogramTimeSeries_def)
  show "writeCalls (snd (main cfg w)) = []"
    by (rule runMain_cases [of cfg w]; simp add: ts)
  show "(fst (runMain cfg w) =
         Err (Wrap ''create histogram time series: ''
                (Errorf (''unknown monitored resource: '' @ monitoredResource cfg))))
       \<longleftrightarrow> (projectID cfg \<noteq> [] \<and> NewMetricClient w = None \<and>
           (\<exists>d. fst (createHistogramDescriptor cfg w) = Ok d))"
    by (rule runMain_cases [of cfg w]; simp add: ts)
  assume "fst (runMain cfg w) =
         Err (Wrap ''create histogram time series: ''
                (Errorf (''unknown monitored resource: '' @ monitoredResource cfg)))"
  then show "filter isNetwork (snd (main cfg w)) =
             [NewMetricClientCall,
              CreateMetricDescriptorCall (histogramDescriptorRequest cfg)]"
    by (rule_tac runMain_cases [of cfg w]; simp add: ts)
qed

theorem configuration_errors_detection_witness:
  "projectID \<lparr> projectID = [], monitoredResource = ''generic_task'' \<rparr> = [] \<and>
   runMain \<lparr> projectID = [], monitoredResource = ''generic_task'' \<rparr> demoWorld =
     (Err (Errorf ''--project-id is unset''), []) \<and>
   monitoredResource \<lparr> projectID = ''demo'', monitoredResource = ''invalid'' \<rparr>
     \<notin> {''generic_task'', ''none'', ''k8s_container''} \<and>
   fst (runMain \<lparr> projectID = ''demo'', monitoredResource = ''invalid'' \<rparr> demoWorld) =
     Err (Wrap ''create histogram time series: ''
            (Errorf ''unknown monitored resource: invalid'')) \<and>
   filter isNetwork
     (snd (main \<lparr> projectID = ''demo'', monitoredResource = ''invalid'' \<rparr> demoWorld)) =
     [NewMetricClientCall,
      CreateMetricDescriptorCall
        (histogramDescriptorRequest \<lparr> projectID = ''demo'', monitoredResource = ''invalid'' \<rparr>)] \<and>
   writeCalls
     (snd (main \<lparr> projectID = ''demo'', monitoredResource = ''invalid'' \<rparr> demoWorld)) = []"
proof -
  have reg: "fst (createHistogramDescriptor
                \<lparr> projectID = ''demo'', monitoredResource = ''invalid'' \<rparr> demoWorld) =
             Ok demoDescriptor"
    by (simp add: createHistogramDescriptor_def mustMarshalProtoText_def demoWorld_def)
  have cl: "NewMetricClient demoWorld = None"
    by (simp add: demoWorld_def)
  from configuration_errors_detection
         [of "\<lparr> projectID = [], monitoredResource = ''generic_task'' \<rparr>" demoWorld]
       configuration_errors_detection
         [of "\<lparr> projectID = ''demo'', monitoredResource = ''invalid'' \<rparr>" demoWorld]
       reg cl
  show ?thesis by simp
qed

text \<open>
  Claim C4. For a non-empty project identifier, the registration step issues one request;
  its descriptor has the type \<open>custom.googleapis.com/test/histogram\<close> (the constant
  \<open>metricType\<close>) and lists both \<open>generic_task\<close> and \<open>k8s_container\<close> as monitored
  resource types. A whole run issues this request once when the client can be created, and
  no registration request otherwise.
\<close>

theorem registration_request_descriptor:
  assumes "projectID cfg \<noteq> []"
  shows "\<exists>desc.
     registrationCalls (snd (createHistogramDescriptor cfg w)) =
       [\<lparr> cmd_Name = ''projects/'' @ projectID cfg, cmd_MetricDescriptor = Some desc \<rparr>] \<and>
     registrationCalls (snd (main cfg w)) =
       (if NewMetricClient w = None
        then [\<lparr> cmd_Name = ''projects/'' @ projectID cfg, cmd_MetricDescriptor = Some desc \<rparr>]
        else []) \<and>
     md_Type desc = metricType \<and>
     md_Type desc = ''custom.googleapis.com/test/histogram'' \<and>
     ''generic_task'' \<in> set (md_MonitoredResourceTypes desc) \<and>
     ''k8s_container'' \<in> set (md_MonitoredResourceTypes desc)"
  using assms
  by (simp add: registrationCalls_runMain histogramDescriptorRequest_def metricType_def)

theorem registration_request_descriptor_witness:
  "projectID demoFlags \<noteq> [] \<and>
   (\<exists>desc.
     registrationCalls (snd (main demoFlags demoWorld)) =
       [\<lparr> cmd_Name = ''projects/demo'', cmd_MetricDescriptor = Some desc \<rparr>] \<and>
     md_Type desc = ''custom.googleapis.com/test/histogram'' \<and>
     ''generic_task'' \<in> set (md_MonitoredResourceTypes desc) \<and>
     ''k8s_container'' \<in> set (md_MonitoredResourceTypes desc))"
proof -
  have h: "projectID demoFlags \<noteq> []" and cl: "NewMetricClient demoWorld = None"
    and pid: "projectID demoFlags = ''demo''"
    by (simp_all add: demoFlags_def demoWorld_def)
  from registration_request_descriptor [OF h, of demoWorld] cl pid h show ?thesis
    by auto
qed

text \<open>
  Claim C5. With the token \<open>none\<close> the series has no monitored resource and exactly one
  point; a run submits nothing or the one batch that holds this series alone, and a run
  that completes has submitted it.
\<close>

theorem none_series_has_no_resource:
  assumes "monitoredResource cfg = ''none''"
  shows "\<exists>series p.
     histogramTimeSeries cfg w = Inr series \<and>
     ts_Resource series = None \<and> ts_Points series = [p] \<and>
     (writeCalls (snd (main cfg w)) = [] \<or>
      writeCalls (snd (main cfg w)) =
        [\<lparr> cts_Name = ''projects/'' @ projectID cfg, cts_TimeSeries = [series] \<rparr>]) \<and>
     (fst (main cfg w) = Returned \<longrightarrow>
      writeCalls (snd (main cfg w)) =
        [\<lparr> cts_Name = ''projects/'' @ projectID cfg, cts_TimeSeries = [series] \<rparr>])"
proof -
  obtain series where s: "histogramTimeSeries cfg w = Inr series"
    and r: "ts_Resource series = None" and p: "ts_Points series = [newHistogramPoint w]"
    using assms by (simp add: histogramTimeSeries_def)
  from s writeCalls_runMain [of cfg w]
  have any: "writeCalls (snd (main cfg w)) = [] \<or>
      writeCalls (snd (main cfg w)) =
        [\<lparr> cts_Name = ''projects/'' @ projectID cfg, cts_TimeSeries = [series] \<rparr>]"
    by auto
  have "writeCalls (snd (main cfg w)) \<noteq> []" if "fst (main cfg w) = Returned"
    using that unfolding main_Returned
    by (rule_tac runMain_cases [of cfg w]; simp add: createHistogramTimeSeries_Ok)
  with any s r p show ?thesis
    by auto
qed

theorem none_series_has_no_resource_witness:
  "monitoredResource demoFlags = ''none'' \<and> projectID demoFlags = ''demo'' \<and>
   fst (main demoFlags demoWorld) = Returned \<and>
   (\<exists>series p.
     writeCalls (snd (main demoFlags demoWorld)) =
       [\<lparr> cts_Name = ''projects/demo'', cts_TimeSeries = [series] \<rparr>] \<and>
     ts_Resource series = None \<and> ts_Points series = [p])"
proof -
  have h: "monitoredResource demoFlags = ''none''" and pid: "projectID demoFlags = ''demo''"
    by (simp_all add: demoFlags_def)
  have ran: "fst (main demoFlags demoWorld) = Returned"
    by (simp add: program_defs world_defs)
  from none_series_has_no_resource [OF h, of demoWorld] ran h pid show ?thesis
    by auto
qed

text \<open>
  Claim C6. With an empty project identifier \<^verbatim>\<open>runMain\<close> returns the error
  \<open>--project-id is unset\<close> with an empty trace; the process logs it and exits with
  status 1. No client is created and none of the three calls is made.
\<close>

theorem empty_project_fails_without_network:
  assumes "projectID cfg = []"
  shows "runMain cfg w = (Err (Errorf ''--project-id is unset''), []) \<and>
         Error (Errorf ''--project-id is unset'') = ''--project-id is unset'' \<and>
         main cfg w =
           (Exited 1, [SlogError ''run main'' (Errorf ''--project-id is unset''), OsExit 1]) \<and>
         filter isNetwork (snd (main cfg w)) = [] \<and>
         steps (snd (main cfg w)) = []"
  using assms by (simp add: runMain_unset main_def)

theorem empty_project_fails_without_network_witness:
  "projectID \<lparr> projectID = [], monitoredResource = ''generic_task'' \<rparr> = [] \<and>
   main \<lparr> projectID = [], monitoredResource = ''generic_task'' \<rparr> demoWorld =
     (Exited 1, [SlogError ''run main'' (Errorf ''--project-id is unset''), OsExit 1])"
  using empty_project_fails_without_network
          [of "\<lparr> projectID = [], monitoredResource = ''generic_task'' \<rparr>" demoWorld]
  by simp

text \<open>
  Claim C7. The steps of a run are an initial part of the sequence client creation,
  registration, write, sleep, audit-log read, fetch, each at most once. When a step returns
  an error the run returns it wrapped, no later step leaves an event, and the process logs
  the error and then calls \<^verbatim>\<open>os.Exit(1)\<close>. The exit status is 0 exactly when
  \<^verbatim>\<open>runMain\<close> returns no error, which is exactly when every step succeeded, and
  then all six steps have run. (A panic of the text marshaller is not an error return: it
  ends the run at once with a non-zero status.)
\<close>

theorem run_stops_at_first_failure:
  "prefix (steps (snd (main cfg w))) allSteps
   \<and> (fst (runMain cfg w) = Err e \<longrightarrow>
        main cfg w = (Exited 1, snd (runMain cfg w) @ [SlogError ''run main'' e, OsExit 1]) \<and>
        exitStatus (fst (main cfg w)) = 1)
   \<and> (exitStatus (fst (main cfg w)) = 0 \<longleftrightarrow> fst (runMain cfg w) = Ok ())
   \<and> (fst (runMain cfg w) = Ok () \<longleftrightarrow>
        projectID cfg \<noteq> [] \<and> NewMetricClient w = None \<and>
        (\<exists>d s d'. fst (createHistogramDescriptor cfg w) = Ok d \<and>
                  fst (createHistogramTimeSeries cfg w) = Ok s \<and>
                  Run w auditLogCommand = None \<and>
                  fst (getMetricDescriptor w d) = Ok d'))
   \<and> (fst (runMain cfg w) = Ok () \<longrightarrow> steps (snd (main cfg w)) = allSteps)
   \<and> (projectID cfg = [] \<longrightarrow>
        fst (runMain cfg w) = Err (Errorf ''--project-id is unset'') \<and>
        steps (snd (main cfg w)) = [])
   \<and> (projectID cfg \<noteq> [] \<and> NewMetricClient w = Some ec \<longrightarrow>
        fst (runMain cfg w) = Err (Wrap ''create gcp monitoring client: '' ec) \<and>
        steps (snd (main cfg w)) = [CreateClient])
   \<and> (projectID cfg \<noteq> [] \<and> NewMetricClient w = None \<and>
       fst (createHistogramDescriptor cfg w) = Err er \<longrightarrow>
        fst (runMain cfg w) = Err (Wrap ''create histogram descriptor: '' er) \<and>
        steps (snd (main cfg w)) = [CreateClient, RegisterDescriptor])
   \<and> (projectID cfg \<noteq> [] \<and> NewMetricClient w = None \<and>
       fst (createHistogramDescriptor cfg w) = Ok d \<and>
       fst (createHistogramTimeSeries cfg w) = Err ew \<longrightarrow>
        fst (runMain cfg w) = Err (Wrap ''create histogram time series: '' ew) \<and>
        (steps (snd (main cfg w)) = [CreateClient, RegisterDescriptor] \<or>
         steps (snd (main cfg w)) = [CreateClient, RegisterDescriptor, WriteSeries]))
   \<and> (projectID cfg \<noteq> [] \<and> NewMetricClient w = None \<and>
       fst (createHistogramDescriptor cfg w) = Ok d \<and>
       fst (createHistogramTimeSeries cfg w) = Ok s \<and>
       Run w auditLogCommand = Some ea \<longrightarrow>
        fst (runMain cfg w) = Err (Wrap ''read audit logs: '' ea) \<and>
        steps (snd (main cfg w)) =
          [CreateClient, RegisterDescriptor, WriteSeries, SleepStep, ReadAuditLogs])
   \<and> (projectID cfg \<noteq> [] \<and> NewMetricClient w = None \<and>
       fst (createHistogramDescriptor cfg w) = Ok d \<and>
       fst (createHistogramTimeSeries cfg w) = Ok s \<and>
       Run w auditLogCommand = None \<and>
       fst (getMetricDescriptor w d) = Err ef \<longrightarrow>
        fst (runMain cfg w) = Err (Wrap ''get metric descriptor: '' ef) \<and>
        steps (snd (main cfg w)) = allSteps)"
proof (intro conjI impI; (elim conjE)?)
  show "prefix (steps (snd (main cfg w))) allSteps"
    by (simp add: steps_runMain_prefix)
next
  assume "fst (runMain cfg w) = Err e"
  then show "main cfg w =
      (Exited 1, snd (runMain cfg w) @ [SlogError ''run main'' e, OsExit 1])"
    and "exitStatus (fst (main cfg w)) = 1"
    by (simp_all add: main_Err)
next
  show "exitStatus (fst (main cfg w)) = 0 \<longleftrightarrow> fst (runMain cfg w) = Ok ()"
    by (simp add: main_exitStatus split: result.splits)
next
  show "fst (runMain cfg w) = Ok () \<longleftrightarrow>
        projectID cfg \<noteq> [] \<and> NewMetricClient w = None \<and>
        (\<exists>d s d'. fst (createHistogramDescriptor cfg w) = Ok d \<and>
                  fst (createHistogramTimeSeries cfg w) = Ok s \<and>
                  Run w auditLogCommand = None \<and>
                  fst (getMetricDescriptor w d) = Ok d')"
    by (rule runMain_Ok)
next
  assume "fst (runMain cfg w) = Ok ()"
  then show "steps (snd (main cfg w)) = allSteps"
    by (rule_tac runMain_cases [of cfg w]; simp add: createHistogramTimeSeries_Ok allSteps_def)
next
  assume "projectID cfg = []"
  then show "fst (runMain cfg w) = Err (Errorf ''--project-id is unset'')"
    and "steps (snd (main cfg w)) = []"
    by (simp_all add: runMain_unset)
next
  assume "projectID cfg \<noteq> []" "NewMetricClient w = Some ec"
  then show "fst (runMain cfg w) = Err (Wrap ''create gcp monitoring client: '' ec)"
    and "steps (snd (main cfg w)) = [CreateClient]"
    by (rule_tac [!] runMain_cases [of cfg w]; simp)+
next
  assume "projectID cfg \<noteq> []" "NewMetricClient w = None"
    "fst (createHistogramDescriptor cfg w) = Err er"
  then show "fst (runMain cfg w) = Err (Wrap ''create histogram descriptor: '' er)"
    and "steps (snd (main cfg w)) = [CreateClient, RegisterDescriptor]"
    by (rule_tac [!] runMain_cases [of cfg w]; simp)+
next
  assume "projectID cfg \<noteq> []" "NewMetricClient w = None"
    "fst (createHistogramDescriptor cfg w) = Ok d"
    "fst (createHistogramTimeSeries cfg w) = Err ew"
  then show "fst (runMain cfg w) = Err (Wrap ''create histogram time series: '' ew)"
    and "steps (snd (main cfg w)) = [CreateClient, RegisterDescriptor] \<or>
         steps (snd (main cfg w)) = [CreateClient, RegisterDescriptor, WriteSeries]"
    using steps_createHistogramTimeSeries_prefix [of cfg w]
    by (rule_tac [!] runMain_cases [of cfg w]; simp)+
next
  assume "projectID cfg \<noteq> []" "NewMetricClient w = None"
    "fst (createHistogramDescriptor cfg w) = Ok d"
    "fst (createHistogramTimeSeries cfg w) = Ok s"
    "Run w auditLogCommand = Some ea"
  then show "fst (runMain cfg w) = Err (Wrap ''read audit logs: '' ea)"
    and "steps (snd (main cfg w)) =
          [CreateClient, RegisterDescriptor, WriteSeries, SleepStep, ReadAuditLogs]"
    by (rule_tac [!] runMain_cases [of cfg w]; simp add: createHistogramTimeSeries_Ok)+
next
  assume "projectID cfg \<noteq> []" "NewMetricClient w = None"
    "fst (createHistogramDescriptor cfg w) = Ok d"
    "fst (createHistogramTimeSeries cfg w) = Ok s"
    "Run w auditLogCommand = None"
    "fst (getMetricDescriptor w d) = Err ef"
  then show "fst (runMain cfg w) = Err (Wrap ''get metric descriptor: '' ef)"
    and "steps (snd (main cfg w)) = allSteps"
    by (rule_tac [!] runMain_cases [of cfg w];
        simp add: createHistogramTimeSeries_Ok allSteps_def)+
qed

theorem run_stops_at_first_failure_witness:
  "exitStatus (fst (main demoFlags demoWorld)) = 0 \<and>
   steps (snd (main demoFlags demoWorld)) = allSteps \<and>
   main \<lparr> projectID = [], monitoredResource = ''none'' \<rparr> demoWorld =
     (Exited 1, [SlogError ''run main'' (Errorf ''--project-id is unset''), OsExit 1]) \<and>
   fst (main demoFlags noClientWorld) = Exited 1 \<and>
   steps (snd (main demoFlags noClientWorld)) = [CreateClient] \<and>
   fst (main demoFlags registerFailsWorld) = Exited 1 \<and>
   steps (snd (main demoFlags registerFailsWorld)) = [CreateClient, RegisterDescriptor] \<and>
   fst (main demoFlags writeFailsWorld) = Exited 1 \<and>
   steps (snd (main demoFlags writeFailsWorld)) =
     [CreateClient, RegisterDescriptor, WriteSeries] \<and>
   fst (main demoFlags auditFailsWorld) = Exited 1 \<and>
   steps (snd (main demoFlags auditFailsWorld)) =
     [CreateClient, RegisterDescriptor, WriteSeries, SleepStep, ReadAuditLogs] \<and>
   fst (main demoFlags fetchFailsWorld) = Exited 1 \<and>
   steps (snd (main demoFlags fetchFailsWorld)) = allSteps"
proof -
  let ?unset = "\<lparr> projectID = [], monitoredResource = ''none'' \<rparr>"
  have pid: "projectID demoFlags \<noteq> []" "projectID ?unset = []"
    by (simp_all add: demoFlags_def)
  have client:
    "NewMetricClient demoWorld = None"
    "NewMetricClient noClientWorld = Some (External ''no credentials'')"
    "NewMetricClient registerFailsWorld = None"
    "NewMetricClient writeFailsWorld = None"
    "NewMetricClient auditFailsWorld = None"
    "NewMetricClient fetchFailsWorld = None"
    by (simp_all add: world_defs)
  have register:
    "fst (createHistogramDescriptor demoFlags demoWorld) = Ok demoDescriptor"
    "fst (createHistogramDescriptor demoFlags registerFailsWorld) =
       Err (Wrap ''create metric descriptor: '' (External ''permission denied''))"
    "fst (createHistogramDescriptor demoFlags writeFailsWorld) = Ok demoDescriptor"
    "fst (createHistogramDescriptor demoFlags auditFailsWorld) = Ok demoDescriptor"
    "fst (createHistogramDescriptor demoFlags fetchFailsWorld) = Ok demoDescriptor"
    by (simp_all add: createHistogramDescriptor_def mustMarshalProtoText_def world_defs)
  obtain s where s: "histogramTimeSeries demoFlags demoWorld = Inr s"
    by (simp add: histogramTimeSeries_def demoFlags_def)
  have series:
    "histogramTimeSeries demoFlags writeFailsWorld = Inr s"
    "histogramTimeSeries demoFlags auditFailsWorld = Inr s"
    "histogramTimeSeries demoFlags fetchFailsWorld = Inr s"
    using s histogramTimeSeries_Now [of writeFailsWorld demoWorld demoFlags]
      histogramTimeSeries_Now [of auditFailsWorld demoWorld demoFlags]
      histogramTimeSeries_Now [of fetchFailsWorld demoWorld demoFlags]
    by (simp_all add: writeFailsWorld_def auditFailsWorld_def fetchFailsWorld_def)
  have marshal:
    "\<And>x. Marshal demoWorld (TimeSeriesMsg (Some x)) = Inr (''unit: '' @ ts_Unit x)"
    "\<And>x. Marshal writeFailsWorld (TimeSeriesMsg (Some x)) = Inr (''unit: '' @ ts_Unit x)"
    "\<And>x. Marshal auditFailsWorld (TimeSeriesMsg (Some x)) = Inr (''unit: '' @ ts_Unit x)"
    "\<And>x. Marshal fetchFailsWorld (TimeSeriesMsg (Some x)) = Inr (''unit: '' @ ts_Unit x)"
    by (simp_all add: world_defs)
  have answer:
    "\<And>r. CreateTimeSeries demoWorld r = None"
    "\<And>r. CreateTimeSeries writeFailsWorld r = Some (External ''invalid argument'')"
    "\<And>r. CreateTimeSeries auditFailsWorld r = None"
    "\<And>r. CreateTimeSeries fetchFailsWorld r = None"
    by (simp_all add: world_defs)
  have "write":
    "fst (createHistogramTimeSeries demoFlags demoWorld) = Ok s"
    "fst (createHistogramTimeSeries demoFlags writeFailsWorld) =
       Err (Wrap ''create time series: '' (External ''invalid argument''))"
    "fst (createHistogramTimeSeries demoFlags auditFailsWorld) = Ok s"
    "fst (createHistogramTimeSeries demoFlags fetchFailsWorld) = Ok s"
    by (simp_all add: createHistogramTimeSeries_def mustMarshalProtoText_def
        s series marshal answer)
  have wrote:
    "steps (snd (createHistogramTimeSeries demoFlags writeFailsWorld)) = [WriteSeries]"
    by (simp add: createHistogramTimeSeries_def mustMarshalProtoText_def
        s series marshal answer)
  have audit:
    "Run demoWorld auditLogCommand = None"
    "Run auditFailsWorld auditLogCommand = Some (External ''exit status 1'')"
    "Run fetchFailsWorld auditLogCommand = None"
    by (simp_all add: world_defs)
  have fetch:
    "fst (getMetricDescriptor demoWorld demoDescriptor) = Ok demoDescriptor"
    "fst (getMetricDescriptor fetchFailsWorld demoDescriptor) = Err (External ''not found'')"
    by (simp_all add: getMetricDescriptor_def mustMarshalProtoText_def world_defs)
  have ok: "fst (runMain demoFlags demoWorld) = Ok ()"
    using run_stops_at_first_failure [of demoFlags demoWorld] pid client register "write" audit fetch by blast
  have a: "exitStatus (fst (main demoFlags demoWorld)) = 0 \<and>
           steps (snd (main demoFlags demoWorld)) = allSteps"
    using run_stops_at_first_failure [of demoFlags demoWorld] ok by blast
  have b: "main ?unset demoWorld =
     (Exited 1, [SlogError ''run main'' (Errorf ''--project-id is unset''), OsExit 1])"
    using run_stops_at_first_failure [of ?unset demoWorld "Errorf ''--project-id is unset''"] pid
    by (simp add: runMain_unset)
  have c: "fst (main demoFlags noClientWorld) = Exited 1 \<and>
           steps (snd (main demoFlags noClientWorld)) = [CreateClient]"
    using run_stops_at_first_failure [where cfg = demoFlags and w = noClientWorld
        and ec = "External ''no credentials''"
        and e = "Wrap ''create gcp monitoring client: '' (External ''no credentials'')"]
      pid client
    by simp
  have d: "fst (main demoFlags registerFailsWorld) = Exited 1 \<and>
           steps (snd (main demoFlags registerFailsWorld)) = [CreateClient, RegisterDescriptor]"
    using run_stops_at_first_failure [where cfg = demoFlags and w = registerFailsWorld
        and er = "Wrap ''create metric descriptor: '' (External ''permission denied'')"
        and e = "Wrap ''create histogram descriptor: ''
                   (Wrap ''create metric descriptor: '' (External ''permission denied''))"]
      pid client register
    by simp
  have wsteps: "steps (snd (main demoFlags writeFailsWorld)) =
                  [CreateClient, RegisterDescriptor, WriteSeries]"
    by (rule runMain_cases [of demoFlags writeFailsWorld];
        insert pid client register "write" wrote; simp)
  have e: "fst (main demoFlags writeFailsWorld) = Exited 1 \<and>
           steps (snd (main demoFlags writeFailsWorld)) =
             [CreateClient, RegisterDescriptor, WriteSeries]"
    using run_stops_at_first_failure [where cfg = demoFlags and w = writeFailsWorld and d = demoDescriptor
        and ew = "Wrap ''create time series: '' (External ''invalid argument'')"
        and e = "Wrap ''create histogram time series: ''
                   (Wrap ''create time series: '' (External ''invalid argument''))"]
      pid client register "write" wsteps
    by simp
  have f: "fst (main demoFlags auditFailsWorld) = Exited 1 \<and>
           steps (snd (main demoFlags auditFailsWorld)) =
             [CreateClient, RegisterDescriptor, WriteSeries, SleepStep, ReadAuditLogs]"
    using run_stops_at_first_failure [where cfg = demoFlags and w = auditFailsWorld and d = demoDescriptor
        and s = s and ea = "External ''exit status 1''"
        and e = "Wrap ''read audit logs: '' (External ''exit status 1'')"]
      pid client register "write" audit
    by simp
  have g: "fst (main demoFlags fetchFailsWorld) = Exited 1 \<and>
           steps (snd (main demoFlags fetchFailsWorld)) = allSteps"
    using run_stops_at_first_failure [where cfg = demoFlags and w = fetchFailsWorld and d = demoDescriptor
        and s = s and ef = "External ''not found''"
        and e = "Wrap ''get metric descriptor: '' (External ''not found'')"]
      pid client register "write" audit fetch
    by simp
  from a b c d e f g show ?thesis by simp
qed

text \<open>
  Claim C8 says that the descriptor returned by registration and the one returned by the
  later fetch report the same type and value kind. The program does not compare them and
  hands each answer on as the backend gave it: against a backend whose descriptor changes
  between the two calls, the run below completes with two descriptors of different value
  types.
\<close>

theorem fetched_descriptor_may_differ:
  "fst (main demoFlags driftingWorld) = Returned \<and>
   fst (createHistogramDescriptor demoFlags driftingWorld) = Ok demoDescriptor \<and>
   fst (getMetricDescriptor driftingWorld demoDescriptor) = Ok driftedDescriptor \<and>
   md_ValueType demoDescriptor = MetricDescriptor_DISTRIBUTION \<and>
   md_ValueType driftedDescriptor = MetricDescriptor_DOUBLE"
  by (simp add: program_defs world_defs)

text \<open>
  Claim C8 as the program has it. In a run that completes, registration returned the
  backend's descriptor \<open>d\<close>, the one fetch of the run asked for the name of \<open>d\<close>, and
  the fetch step returned the backend's answer \<open>d'\<close> to that request unchanged. So the
  two report the same type and value kind whenever the backend answers the fetch with the
  descriptor it returned at registration.
\<close>

theorem fetch_asks_for_registered_name:
  assumes "fst (main cfg w) = Returned"
  shows "\<exists>d d'.
     CreateMetricDescriptor w (histogramDescriptorRequest cfg) = Inr d \<and>
     fst (createHistogramDescriptor cfg w) = Ok d \<and>
     fetchCalls (snd (main cfg w)) = [\<lparr> gmd_Name = md_Name d \<rparr>] \<and>
     GetMetricDescriptor w \<lparr> gmd_Name = md_Name d \<rparr> = Inr d' \<and>
     fst (getMetricDescriptor w d) = Ok d' \<and>
     (GetMetricDescriptor w \<lparr> gmd_Name = md_Name d \<rparr> =
        CreateMetricDescriptor w (histogramDescriptorRequest cfg) \<longrightarrow>
      md_Type d' = md_Type d \<and> md_ValueType d' = md_ValueType d)"
proof -
  from assms have "fst (runMain cfg w) = Ok ()"
    by (simp add: main_Returned)
  then obtain d s d' where d: "fst (createHistogramDescriptor cfg w) = Ok d"
    and d': "fst (getMetricDescriptor w d) = Ok d'"
    and calls: "fetchCalls (snd (runMain cfg w)) = [\<lparr> gmd_Name = md_Name d \<rparr>]"
    by (rule_tac runMain_cases [of cfg w]; simp)
  from d have created: "CreateMetricDescriptor w (histogramDescriptorRequest cfg) = Inr d"
    by (rule_tac createHistogramDescriptor_cases [of w cfg]; simp)
  from d' have got: "GetMetricDescriptor w \<lparr> gmd_Name = md_Name d \<rparr> = Inr d'"
    by (rule_tac getMetricDescriptor_cases [of w d]; simp)
  from d d' calls created got show ?thesis
    by auto
qed

theorem fetch_asks_for_registered_name_witness:
  "fst (main demoFlags demoWorld) = Returned \<and>
   fetchCalls (snd (main demoFlags demoWorld)) = [\<lparr> gmd_Name = md_Name demoDescriptor \<rparr>] \<and>
   GetMetricDescriptor demoWorld \<lparr> gmd_Name = md_Name demoDescriptor \<rparr> =
     CreateMetricDescriptor demoWorld (histogramDescriptorRequest demoFlags) \<and>
   fst (getMetricDescriptor demoWorld demoDescriptor) = Ok demoDescriptor"
proof -
  have ran: "fst (main demoFlags demoWorld) = Returned"
    by (simp add: program_defs world_defs)
  have created: "CreateMetricDescriptor demoWorld (histogramDescriptorRequest demoFlags) =
                   Inr demoDescriptor"
    and same: "GetMetricDescriptor demoWorld \<lparr> gmd_Name = md_Name demoDescriptor \<rparr> =
                 CreateMetricDescriptor demoWorld (histogramDescriptorRequest demoFlags)"
    by (simp_all add: demoWorld_def)
  from fetch_asks_for_registered_name [OF ran] created same ran show ?thesis
    by auto
qed

text \<open>
  Claim C9. For each supported token the series agrees with the descriptor that the
  registration request declares: the metric type is the descriptor's type, the constant
  \<open>metricType\<close>; both are of kind GAUGE and value type DISTRIBUTION with unit \<open>ms\<close>; and
  the metric's labels have the one key \<open>key_a\<close>, the one key of the descriptor's labels.
\<close>

theorem series_matches_descriptor:
  assumes "monitoredResource cfg \<in> {''generic_task'', ''none'', ''k8s_container''}"
  shows "\<exists>series m desc.
     histogramTimeSeries cfg w = Inr series \<and> ts_Metric series = Some m \<and>
     cmd_MetricDescriptor (histogramDescriptorRequest cfg) = Some desc \<and>
     m_Type m = md_Type desc \<and> md_Type desc = metricType \<and>
     ts_MetricKind series = MetricDescriptor_GAUGE \<and>
     md_MetricKind desc = MetricDescriptor_GAUGE \<and>
     ts_ValueType series = MetricDescriptor_DISTRIBUTION \<and>
     md_ValueType desc = MetricDescriptor_DISTRIBUTION \<and>
     ts_Unit series = ''ms'' \<and> md_Unit desc = ''ms'' \<and>
     dom (m_Labels m) = {''key_a''} \<and>
     map ld_Key (md_Labels desc) = [''key_a'']"
proof -
  from histogramTimeSeries_supported [OF assms, of w]
  obtain series where "histogramTimeSeries cfg w = Inr series"
    and "ts_Metric series = Some \<lparr> m_Type = metricType, m_Labels = [''key_a'' \<mapsto> ''value-a''] \<rparr>"
    and "ts_MetricKind series = MetricDescriptor_GAUGE"
    and "ts_ValueType series = MetricDescriptor_DISTRIBUTION"
    and "ts_Unit series = ''ms''"
    by auto
  then show ?thesis
    by (simp add: histogramDescriptorRequest_def)
qed

theorem series_matches_descriptor_witness:
  "monitoredResource \<lparr> projectID = ''demo'', monitoredResource = ''generic_task'' \<rparr>
     \<in> {''generic_task'', ''none'', ''k8s_container''} \<and>
   (\<exists>series m desc.
     histogramTimeSeries \<lparr> projectID = ''demo'', monitoredResource = ''generic_task'' \<rparr>
       demoWorld = Inr series \<and>
     ts_Metric series = Some m \<and>
     cmd_MetricDescriptor
       (histogramDescriptorRequest
          \<lparr> projectID = ''demo'', monitoredResource = ''generic_task'' \<rparr>) = Some desc \<and>
     m_Type m = md_Type desc \<and> md_Type desc = metricType \<and>
     ts_MetricKind series = MetricDescriptor_GAUGE \<and>
     md_MetricKind desc = MetricDescriptor_GAUGE \<and>
     ts_ValueType series = MetricDescriptor_DISTRIBUTION \<and>
     md_ValueType desc = MetricDescriptor_DISTRIBUTION \<and>
     ts_Unit series = ''ms'' \<and> md_Unit desc = ''ms'' \<and>
     dom (m_Labels m) = {''key_a''} \<and>
     map ld_Key (md_Labels desc) = [''key_a''])"
proof -
  let ?cfg = "\<lparr> projectID = ''demo'', monitoredResource = ''generic_task'' \<rparr>"
  have h: "monitoredResource ?cfg \<in> {''generic_task'', ''none'', ''k8s_container''}"
    by simp
  from h series_matches_descriptor [OF h, of demoWorld] show ?thesis
    by (rule conjI)
qed

text \<open>
  Claim C10. The fetch step prints the text of whatever the client returned and only then
  returns: when the call fails it prints the text of the nil descriptor and returns the
  client's error as it is; when the call succeeds it prints the descriptor and returns it.
  In both cases the print follows the call, and the step itself never looks at the error.
\<close>

theorem fetch_prints_before_returning:
  "(GetMetricDescriptor w \<lparr> gmd_Name = md_Name d \<rparr> = Inl e \<and>
    Marshal w (MetricDescriptorMsg None) = Inr out \<longrightarrow>
      getMetricDescriptor w d =
        (Err e,
         [GetMetricDescriptorCall \<lparr> gmd_Name = md_Name d \<rparr>,
          Printf ([CHR 0x0A] @ Add Blue ''[GOT METRIC DESCRIPTOR]'' @ [CHR 0x0A]
                  @ out @ [CHR 0x0A])]))
   \<and>
   (GetMetricDescriptor w \<lparr> gmd_Name = md_Name d \<rparr> = Inr d' \<and>
    Marshal w (MetricDescriptorMsg (Some d')) = Inr out' \<longrightarrow>
      getMetricDescriptor w d =
        (Ok d',
         [GetMetricDescriptorCall \<lparr> gmd_Name = md_Name d \<rparr>,
          Printf ([CHR 0x0A] @ Add Blue ''[GOT METRIC DESCRIPTOR]'' @ [CHR 0x0A]
                  @ out' @ [CHR 0x0A])]))"
  by (simp add: getMetricDescriptor_def mustMarshalProtoText_def)

theorem fetch_prints_before_returning_witness:
  "GetMetricDescriptor fetchFailsWorld \<lparr> gmd_Name = md_Name demoDescriptor \<rparr> =
     Inl (External ''not found'') \<and>
   Marshal fetchFailsWorld (MetricDescriptorMsg None) = Inr [] \<and>
   getMetricDescriptor fetchFailsWorld demoDescriptor =
     (Err (External ''not found''),
      [GetMetricDescriptorCall \<lparr> gmd_Name = md_Name demoDescriptor \<rparr>,
       Printf ([CHR 0x0A] @ Add Blue ''[GOT METRIC DESCRIPTOR]'' @ [CHR 0x0A]
               @ [] @ [CHR 0x0A])]) \<and>
   GetMetricDescriptor demoWorld \<lparr> gmd_Name = md_Name demoDescriptor \<rparr> =
     Inr demoDescriptor \<and>
   Marshal demoWorld (MetricDescriptorMsg (Some demoDescriptor)) =
     Inr ''type: custom.googleapis.com/test/histogram'' \<and>
   getMetricDescriptor demoWorld demoDescriptor =
     (Ok demoDescriptor,
      [GetMetricDescriptorCall \<lparr> gmd_Name = md_Name demoDescriptor \<rparr>,
       Printf ([CHR 0x0A] @ Add Blue ''[GOT METRIC DESCRIPTOR]'' @ [CHR 0x0A]
               @ ''type: custom.googleapis.com/test/histogram'' @ [CHR 0x0A])])"
proof -
  have failing:
    "GetMetricDescriptor fetchFailsWorld \<lparr> gmd_Name = md_Name demoDescriptor \<rparr> =
       Inl (External ''not found'')"
    "Marshal fetchFailsWorld (MetricDescriptorMsg None) = Inr []"
    by (simp_all add: fetchFailsWorld_def demoWorld_def)
  have answering:
    "GetMetricDescriptor demoWorld \<lparr> gmd_Name = md_Name demoDescriptor \<rparr> =
       Inr demoDescriptor"
    "Marshal demoWorld (MetricDescriptorMsg (Some demoDescriptor)) =
       Inr ''type: custom.googleapis.com/test/histogram''"
    by (simp_all add: demoWorld_def demoDescriptor_def)
  from fetch_prints_before_returning
         [of fetchFailsWorld demoDescriptor "External ''not found''" "[]"]
       fetch_prints_before_returning
         [where w = demoWorld and d = demoDescriptor and d' = demoDescriptor
            and out' = "''type: custom.googleapis.com/test/histogram''"]
       failing answering
  show ?thesis
    by simp
qed

end
